theory Spec2Isabelle
  imports Complex_Main
begin

section \<open>Numbers and vectors\<close>

text \<open>
  The sources compute with JavaScript numbers.  They are embedded as mathematical reals
  (timestamps of \<open>Date.now()\<close>, which are whole milliseconds, as integers): every result
  below is about the exact arithmetic of the formulas in the code, not about the rounding
  of IEEE doubles.

  \<open>THREE.Vector3\<close> is a triple of numbers.  Its method \<open>distanceTo\<close> belongs to the
  three.js library: the Euclidean distance over all three coordinates,
  \<open>Math.sqrt(dx*dx + dy*dy + dz*dz)\<close>.
\<close>

record vec3 =
  vx :: real
  vy :: real
  vz :: real

definition distanceToSquared :: "vec3 \<Rightarrow> vec3 \<Rightarrow> real" where
  "distanceToSquared a b =
     (let dx = vx a - vx b; dy = vy a - vy b; dz = vz a - vz b
      in dx * dx + dy * dy + dz * dz)"

definition distanceTo :: "vec3 \<Rightarrow> vec3 \<Rightarrow> real" where
  "distanceTo a b = sqrt (distanceToSquared a b)"

text \<open>The distance in the ground plane (x and z only), which the code never computes;
  it is the quantity the specification's wording of the checkpoint test speaks of.\<close>

definition planarDistance :: "vec3 \<Rightarrow> vec3 \<Rightarrow> real" where
  "planarDistance a b = sqrt ((vx a - vx b) * (vx a - vx b) + (vz a - vz b) * (vz a - vz b))"


section \<open>BurgerVehicle\<close>

text \<open>
  The fields of the class that its movement reads and writes.  \<open>maxSpeed\<close>,
  \<open>acceleration\<close>, \<open>deceleration\<close> and \<open>turnSpeed\<close> are private fields that are
  initialised once and never assigned again, so they are constants here.  The meshes and
  the camera only read the state below (\<open>updateMesh\<close>, \<open>updateCamera\<close>) and are left out.
\<close>

record vehicle =
  position :: vec3
  rotation :: real
  speed :: real
  currentTurn :: real

definition maxSpeed :: real where "maxSpeed = 0.3"
definition acceleration :: real where "acceleration = 0.008"
definition deceleration :: real where "deceleration = 0.01"
definition turnSpeed :: real where "turnSpeed = 0.03"

text \<open>The lower bound of the speed that braking clamps to, \<open>-this.maxSpeed * 0.5\<close>.\<close>

definition maxReverseSpeed :: real where "maxReverseSpeed = maxSpeed * 0.5"

text \<open>The local constant \<open>boundary\<close> of \<open>applyPhysics\<close>.\<close>

definition boundary :: real where "boundary = 50"

text \<open>The state the constructor builds: \<open>new THREE.Vector3(0, 0.5, 0)\<close>, everything else 0.\<close>

definition newVehicle :: vehicle where
  "newVehicle = \<lparr>position = \<lparr>vx = 0, vy = 0.5, vz = 0\<rparr>, rotation = 0, speed = 0, currentTurn = 0\<rparr>"

text \<open>
  \<open>handleInput\<close> first reduces the keyboard or the joystick to four booleans; they are
  the input of the model.
\<close>

record input =
  accelerate :: bool
  brake :: bool
  turnLeft :: bool
  turnRight :: bool

definition handleInput :: "input \<Rightarrow> vehicle \<Rightarrow> vehicle" where
  "handleInput i v =
     (let speed1 =
            (if accelerate i then min (speed v + acceleration) maxSpeed
             else if brake i then max (speed v - deceleration * 1.5) (- maxSpeed * 0.5)
             else if speed v > 0 then max 0 (speed v - deceleration)
             else if speed v < 0 then min 0 (speed v + deceleration)
             else speed v);
          turn1 =
            (if \<bar>speed1\<bar> > 0.01 then
               (if turnLeft i then max (- 1) (currentTurn v - turnSpeed)
                else if turnRight i then min 1 (currentTurn v + turnSpeed)
                else if currentTurn v > 0 then max 0 (currentTurn v - turnSpeed)
                else if currentTurn v < 0 then min 0 (currentTurn v + turnSpeed)
                else currentTurn v)
             else 0);
          turnAmount = turn1 * \<bar>speed1\<bar> * 0.1
      in v\<lparr>rotation := rotation v + turnAmount, speed := speed1, currentTurn := turn1\<rparr>)"

definition applyPhysics :: "vehicle \<Rightarrow> vehicle" where
  "applyPhysics v =
     (let x1 = vx (position v) + sin (rotation v) * speed v;
          z1 = vz (position v) + cos (rotation v) * speed v;
          v1 = v\<lparr>position := (position v)\<lparr>vx := x1, vz := z1\<rparr>\<rparr>;
          v2 = (if \<bar>vx (position v1)\<bar> > boundary
                then v1\<lparr>position := (position v1)\<lparr>vx := sgn (vx (position v1)) * boundary\<rparr>,
                        speed := speed v1 * 0.5\<rparr>
                else v1);
          v3 = (if \<bar>vz (position v2)\<bar> > boundary
                then v2\<lparr>position := (position v2)\<lparr>vz := sgn (vz (position v2)) * boundary\<rparr>,
                        speed := speed v2 * 0.5\<rparr>
                else v2)
      in v3)"

text \<open>\<open>update(deltaTime)\<close>; the source never reads \<open>deltaTime\<close>.\<close>

definition update :: "input \<Rightarrow> vehicle \<Rightarrow> vehicle" where
  "update i v = applyPhysics (handleInput i v)"

text \<open>A sequence of frames: one \<open>update\<close> per input sample, in order.\<close>

fun run :: "input list \<Rightarrow> vehicle \<Rightarrow> vehicle" where
  "run [] v = v"
| "run (i # is) v = run is (update i v)"

text \<open>Input samples used in the examples.\<close>

definition noInput :: input where
  "noInput = \<lparr>accelerate = False, brake = False, turnLeft = False, turnRight = False\<rparr>"

definition accelOnly :: input where
  "accelOnly = \<lparr>accelerate = True, brake = False, turnLeft = False, turnRight = False\<rparr>"

definition leftOnly :: input where
  "leftOnly = \<lparr>accelerate = False, brake = False, turnLeft = True, turnRight = False\<rparr>"

definition accelLeft :: input where
  "accelLeft = \<lparr>accelerate = True, brake = False, turnLeft = True, turnRight = False\<rparr>"

text \<open>Two states at the arena wall: in the corner \<open>(50, 50)\<close> heading between the two
  walls, and at the wall \<open>z = 50\<close> heading straight into it.\<close>

definition cornerVehicle :: vehicle where
  "cornerVehicle =
     \<lparr>position = \<lparr>vx = 50, vy = 0.5, vz = 50\<rparr>, rotation = 0.75, speed = 0.1, currentTurn = 0\<rparr>"

definition wallVehicle :: vehicle where
  "wallVehicle =
     \<lparr>position = \<lparr>vx = 0, vy = 0.5, vz = 50\<rparr>, rotation = 0, speed = 0.1, currentTurn = 0\<rparr>"

text \<open>A run that ends at the wall \<open>z = 50\<close> almost at rest: 185 frames of acceleration
  straight ahead, then three frames without input.\<close>

definition wallFrames :: "input list" where
  "wallFrames = replicate 185 accelOnly @ [noInput, noInput, noInput]"

text \<open>The speed that the steering test of a frame reads is the one \<open>handleInput\<close> has
  just computed.  \<open>deadzoneTicks is v\<close>: on every frame of the run, that speed is at or
  below the threshold 0.01 of the test.\<close>

fun deadzoneTicks :: "input list \<Rightarrow> vehicle \<Rightarrow> bool" where
  "deadzoneTicks [] v = True"
| "deadzoneTicks (i # is) v =
     (\<bar>speed (handleInput i v)\<bar> \<le> 0.01 \<and> deadzoneTicks is (update i v))"

text \<open>The distance a vehicle has covered at most after \<open>n\<close> frames of acceleration from
  rest: the sum of the speeds \<open>min (k * 0.008) 0.3\<close> for \<open>k = 1..n\<close>, in closed form.\<close>

definition travelled :: "nat \<Rightarrow> real" where
  "travelled n = (if n \<le> 37 then 0.004 * real n * (real n + 1) else 0.3 * real n - 5.476)"


section \<open>RacingGame\<close>

text \<open>
  \<open>bestTime\<close> starts as \<open>Infinity\<close>; a lap time is a finite number.
\<close>

datatype time = Finite real | Infinity

fun lessThanTime :: "real \<Rightarrow> time \<Rightarrow> bool" where
  "lessThanTime t Infinity = True"
| "lessThanTime t (Finite b) = (t < b)"

record racingGame =
  checkpoints :: "vec3 list"
  currentCheckpoint :: nat
  lapCount :: nat
  startTime :: int
  bestTime :: time

text \<open>
  Reading \<open>this.checkpoints[this.currentCheckpoint]\<close> past the end gives \<open>undefined\<close>, and
  \<open>distanceTo(undefined)\<close> throws a TypeError.
\<close>

datatype error = TypeError

text \<open>
  \<open>checkCheckpoints\<close> reads the vehicle's position and, on a completed lap, the clock
  twice (\<open>Date.now()\<close> for the lap time, then again for the new start time).  The three
  readings are the arguments \<open>vehiclePos\<close>, \<open>now1\<close> and \<open>now2\<close>.
\<close>

definition checkCheckpoints :: "vec3 \<Rightarrow> int \<Rightarrow> int \<Rightarrow> racingGame \<Rightarrow> error + racingGame" where
  "checkCheckpoints vehiclePos now1 now2 g =
     (if length (checkpoints g) = 0 then Inr g
      else if currentCheckpoint g \<ge> length (checkpoints g) then Inl TypeError
      else
        let checkpoint = checkpoints g ! currentCheckpoint g;
            distance = distanceTo vehiclePos checkpoint
        in if distance < 3 then
             let g1 = g\<lparr>currentCheckpoint := currentCheckpoint g + 1\<rparr>
             in if currentCheckpoint g1 \<ge> length (checkpoints g1) then
                  let g2 = g1\<lparr>currentCheckpoint := 0, lapCount := lapCount g1 + 1\<rparr>;
                      lapTime = real_of_int (now1 - startTime g2) / 1000;
                      g3 = (if lessThanTime lapTime (bestTime g2)
                            then g2\<lparr>bestTime := Finite lapTime\<rparr> else g2)
                  in Inr (g3\<lparr>startTime := now2\<rparr>)
                else Inr g1
           else Inr g)"

text \<open>The state of a new game over a given checkpoint list, started at clock reading \<open>t0\<close>.\<close>

definition newGame :: "vec3 list \<Rightarrow> int \<Rightarrow> racingGame" where
  "newGame cps t0 =
     \<lparr>checkpoints = cps, currentCheckpoint = 0, lapCount = 0, startTime = t0, bestTime = Infinity\<rparr>"

text \<open>A sequence of calls, each with its own readings; it stops at the first exception.\<close>

fun checkAll :: "(vec3 \<times> int \<times> int) list \<Rightarrow> racingGame \<Rightarrow> error + racingGame" where
  "checkAll [] g = Inr g"
| "checkAll ((p, now1, now2) # cs) g =
     (case checkCheckpoints p now1 now2 g of Inl e \<Rightarrow> Inl e | Inr g' \<Rightarrow> checkAll cs g')"

text \<open>Example data: a track of one or of two checkpoints, the first being the first
  checkpoint \<open>(30, 0, 0)\<close> that \<open>createTrack\<close> places, and vehicle positions at the height
  0.5 that the vehicle always has.\<close>

definition cpA :: vec3 where "cpA = \<lparr>vx = 30, vy = 0, vz = 0\<rparr>"
definition cpB :: vec3 where "cpB = \<lparr>vx = 0, vy = 0, vz = 30\<rparr>"
definition atA :: vec3 where "atA = \<lparr>vx = 30, vy = 0.5, vz = 0\<rparr>"
definition nearA :: vec3 where "nearA = \<lparr>vx = 27.01, vy = 0.5, vz = 0\<rparr>"
definition farA :: vec3 where "farA = \<lparr>vx = 0, vy = 0.5, vz = 0\<rparr>"


section \<open>Sword\<close>

datatype swordType = IRON | STEEL | GOLD | DIAMOND

text \<open>
  The fields of a sword that \<open>update\<close> and \<open>checkCollision\<close> touch: its own position, the
  position and the z rotation of its mesh, the float offset, the flag, and whether the
  mesh is in the scene (\<open>collect\<close> removes it).
\<close>

record sword =
  swordType :: swordType
  position_sword :: vec3
  meshPosition :: vec3
  meshRotationZ :: real
  floatOffset :: real
  collected :: bool
  inScene :: bool

definition rotationSpeed :: real where "rotationSpeed = 0.03"
definition floatSpeed :: real where "floatSpeed = 0.001"

definition update_sword :: "real \<Rightarrow> sword \<Rightarrow> sword" where
  "update_sword deltaTime s =
     (if collected s then s
      else
        let s1 = s\<lparr>meshRotationZ := meshRotationZ s + rotationSpeed\<rparr>;
            s2 = s1\<lparr>floatOffset := floatOffset s1 + floatSpeed\<rparr>
        in s2\<lparr>meshPosition :=
                 (meshPosition s2)\<lparr>vy := vy (position_sword s2) + sin (floatOffset s2) * 0.15\<rparr>\<rparr>)"

definition collect :: "sword \<Rightarrow> sword" where
  "collect s = s\<lparr>collected := True, inScene := False\<rparr>"

definition checkCollision :: "vec3 \<Rightarrow> real \<Rightarrow> sword \<Rightarrow> bool \<times> sword" where
  "checkCollision playerPosition playerRadius s =
     (if collected s then (False, s)
      else
        let distance = distanceTo (meshPosition s) playerPosition;
            collectDistance = playerRadius + 0.5
        in if distance < collectDistance then (True, collect s) else (False, s))"

definition isCollected :: "sword \<Rightarrow> bool" where
  "isCollected s = collected s"

text \<open>The calls a game makes on a sword, and a sequence of them.\<close>

datatype swordCall = Update real | CheckCollision vec3 real

fun call_sword :: "swordCall \<Rightarrow> sword \<Rightarrow> sword" where
  "call_sword (Update deltaTime) s = update_sword deltaTime s"
| "call_sword (CheckCollision p r) s = snd (checkCollision p r s)"

fun calls_sword :: "swordCall list \<Rightarrow> sword \<Rightarrow> sword" where
  "calls_sword [] s = s"
| "calls_sword (c # cs) s = calls_sword cs (call_sword c s)"

text \<open>Example data.\<close>

definition sword0 :: sword where
  "sword0 = \<lparr>swordType = IRON, position_sword = \<lparr>vx = 0, vy = 1, vz = 0\<rparr>,
     meshPosition = \<lparr>vx = 0, vy = 1, vz = 0\<rparr>, meshRotationZ = 0, floatOffset = 0,
     collected = False, inScene = True\<rparr>"

definition playerNear :: vec3 where "playerNear = \<lparr>vx = 0, vy = 1, vz = 0.75\<rparr>"
definition playerFar :: vec3 where "playerFar = \<lparr>vx = 0, vy = 1, vz = 5\<rparr>"


section \<open>Vectors: the distance test\<close>

lemma distanceToSquared_nonneg: "0 \<le> distanceToSquared a b"
  by (simp add: distanceToSquared_def Let_def)

lemma distanceTo_less_iff:
  assumes "0 < r"
  shows "distanceTo a b < r \<longleftrightarrow> distanceToSquared a b < r * r"
proof -
  have "sqrt (distanceToSquared a b) < r \<longleftrightarrow> sqrt (distanceToSquared a b) < sqrt (r * r)"
    using assms by simp
  also have "\<dots> \<longleftrightarrow> distanceToSquared a b < r * r"
    by (rule real_sqrt_less_iff)
  finally show ?thesis by (simp add: distanceTo_def)
qed

text \<open>The vehicle rides at height 0.5 and the checkpoints lie at height 0, so the test
  \<open>distance < 3\<close> of the game is a test of the squared planar distance against 8.75.\<close>

lemma distanceTo_at_vehicle_height:
  assumes "vy a = 0.5" "vy b = 0"
  shows "distanceTo a b < 3 \<longleftrightarrow>
           (vx a - vx b) * (vx a - vx b) + (vz a - vz b) * (vz a - vz b) < 8.75"
proof -
  have "distanceToSquared a b
          = (vx a - vx b) * (vx a - vx b) + (vz a - vz b) * (vz a - vz b) + 0.25"
    unfolding distanceToSquared_def Let_def assms by simp
  then show ?thesis
    by (simp add: distanceTo_less_iff) linarith
qed


section \<open>BurgerVehicle: what one frame does to each field\<close>

lemma speed_handleInput:
  "speed (handleInput i v) =
     (if accelerate i then min (speed v + acceleration) maxSpeed
      else if brake i then max (speed v - deceleration * 1.5) (- maxSpeed * 0.5)
      else if speed v > 0 then max 0 (speed v - deceleration)
      else if speed v < 0 then min 0 (speed v + deceleration)
      else speed v)"
  by (simp add: handleInput_def Let_def)

lemma currentTurn_handleInput:
  "currentTurn (handleInput i v) =
     (if \<bar>speed (handleInput i v)\<bar> > 0.01 then
        (if turnLeft i then max (- 1) (currentTurn v - turnSpeed)
         else if turnRight i then min 1 (currentTurn v + turnSpeed)
         else if currentTurn v > 0 then max 0 (currentTurn v - turnSpeed)
         else if currentTurn v < 0 then min 0 (currentTurn v + turnSpeed)
         else currentTurn v)
      else 0)"
  by (simp add: handleInput_def Let_def)

lemma rotation_handleInput:
  "rotation (handleInput i v) =
     rotation v + currentTurn (handleInput i v) * \<bar>speed (handleInput i v)\<bar> * 0.1"
  by (simp add: handleInput_def Let_def)

lemma position_handleInput: "position (handleInput i v) = position v"
  by (simp add: handleInput_def Let_def)

lemma currentTurn_applyPhysics: "currentTurn (applyPhysics v) = currentTurn v"
  by (simp add: applyPhysics_def Let_def)

lemma rotation_applyPhysics: "rotation (applyPhysics v) = rotation v"
  by (simp add: applyPhysics_def Let_def)

lemma speed_applyPhysics:
  "speed (applyPhysics v) =
     speed v
       * (if \<bar>vx (position v) + sin (rotation v) * speed v\<bar> > boundary then 0.5 else 1)
       * (if \<bar>vz (position v) + cos (rotation v) * speed v\<bar> > boundary then 0.5 else 1)"
  by (simp add: applyPhysics_def Let_def)

lemma vx_applyPhysics:
  "vx (position (applyPhysics v)) =
     (if \<bar>vx (position v) + sin (rotation v) * speed v\<bar> > boundary
      then sgn (vx (position v) + sin (rotation v) * speed v) * boundary
      else vx (position v) + sin (rotation v) * speed v)"
  by (simp add: applyPhysics_def Let_def)

lemma vz_applyPhysics:
  "vz (position (applyPhysics v)) =
     (if \<bar>vz (position v) + cos (rotation v) * speed v\<bar> > boundary
      then sgn (vz (position v) + cos (rotation v) * speed v) * boundary
      else vz (position v) + cos (rotation v) * speed v)"
  by (simp add: applyPhysics_def Let_def)

lemma vy_applyPhysics: "vy (position (applyPhysics v)) = vy (position v)"
  by (simp add: applyPhysics_def Let_def)

lemma run_append: "run (xs @ ys) v = run ys (run xs v)"
  by (induction xs arbitrary: v) simp_all

lemma speed_applyPhysics_between:
  "0 \<le> speed v \<Longrightarrow> 0 \<le> speed (applyPhysics v) \<and> speed (applyPhysics v) \<le> speed v"
  "speed v \<le> 0 \<Longrightarrow> speed v \<le> speed (applyPhysics v) \<and> speed (applyPhysics v) \<le> 0"
  by (simp_all add: speed_applyPhysics)

lemma speed_bounds_update:
  assumes "- maxReverseSpeed \<le> speed v" "speed v \<le> maxSpeed"
  shows "- maxReverseSpeed \<le> speed (update i v) \<and> speed (update i v) \<le> maxSpeed"
proof -
  let ?w = "handleInput i v"
  have w: "- maxReverseSpeed \<le> speed ?w \<and> speed ?w \<le> maxSpeed"
    using assms
    by (auto simp add: speed_handleInput maxReverseSpeed_def maxSpeed_def acceleration_def
        deceleration_def min_def max_def)
  show ?thesis
  proof (cases "0 \<le> speed ?w")
    case True
    with speed_applyPhysics_between(1)[of ?w] w show ?thesis
      by (simp add: update_def maxReverseSpeed_def maxSpeed_def)
  next
    case False
    with speed_applyPhysics_between(2)[of ?w] w show ?thesis
      by (simp add: update_def maxReverseSpeed_def maxSpeed_def)
  qed
qed

lemma speed_bounds_run:
  "- maxReverseSpeed \<le> speed v \<Longrightarrow> speed v \<le> maxSpeed \<Longrightarrow>
   - maxReverseSpeed \<le> speed (run inputs v) \<and> speed (run inputs v) \<le> maxSpeed"
proof (induction inputs arbitrary: v)
  case Nil
  then show ?case by simp
next
  case (Cons i inputs)
  from speed_bounds_update[OF Cons.prems] Cons.IH[of "update i v"]
  show ?case by simp
qed

text \<open>
  Claim C2.  Whatever the inputs of the frames are, after every \<open>update\<close> of a run that
  starts from the new vehicle (speed 0) the speed lies between \<open>- maxReverseSpeed\<close>
  (which is \<open>maxSpeed * 0.5\<close>) and \<open>maxSpeed\<close>, also on a frame where the boundary
  clamp halves it.  \<open>take n inputs\<close> is the run up to its \<open>n\<close>-th frame.
\<close>

theorem speed_always_bounded:
  "- maxReverseSpeed \<le> speed (run (take n inputs) newVehicle)
   \<and> speed (run (take n inputs) newVehicle) \<le> maxSpeed"
  by (rule speed_bounds_run) (simp_all add: newVehicle_def maxReverseSpeed_def maxSpeed_def)


section \<open>BurgerVehicle: decay, steering, the boundary\<close>

lemma update_turn_rotation:
  "currentTurn (update i v) = currentTurn (handleInput i v)"
  "rotation (update i v) = rotation (handleInput i v)"
  by (simp_all add: update_def currentTurn_applyPhysics rotation_applyPhysics)

lemma abs_speed_applyPhysics:
  "\<bar>speed (applyPhysics v)\<bar> \<le> \<bar>speed v\<bar> \<and> 0 \<le> speed v * speed (applyPhysics v)"
  by (simp add: speed_applyPhysics abs_mult)

lemma decay_handleInput:
  assumes "\<not> accelerate i" "\<not> brake i"
  shows "\<bar>speed (handleInput i v)\<bar> = max 0 (\<bar>speed v\<bar> - deceleration)"
    and "0 \<le> speed v * speed (handleInput i v)"
    and "\<bar>speed (handleInput i v)\<bar> \<le> \<bar>speed v\<bar>"
  using assms
  by (auto simp add: speed_handleInput deceleration_def min_def max_def zero_le_mult_iff)

lemma decay_update:
  assumes "\<not> accelerate i" "\<not> brake i"
  shows "\<bar>speed (update i v)\<bar> \<le> max 0 (\<bar>speed v\<bar> - deceleration)"
    and "0 \<le> speed v * speed (update i v)"
proof -
  let ?w = "handleInput i v"
  have a: "\<bar>speed (applyPhysics ?w)\<bar> \<le> \<bar>speed ?w\<bar>"
    and b: "0 \<le> speed ?w * speed (applyPhysics ?w)"
    using abs_speed_applyPhysics[of ?w] by simp_all
  from a decay_handleInput(1)[OF assms, of v]
  show "\<bar>speed (update i v)\<bar> \<le> max 0 (\<bar>speed v\<bar> - deceleration)"
    by (simp add: update_def)
  from b decay_handleInput(2)[OF assms, of v] a decay_handleInput(3)[OF assms, of v]
  show "0 \<le> speed v * speed (update i v)"
    unfolding update_def zero_le_mult_iff by linarith
qed

lemma max_chain:
  fixes a s d n r :: real
  assumes "0 \<le> d" "0 \<le> n" "a \<le> max 0 (s - d)" "r \<le> max 0 (a - d * n)"
  shows "r \<le> max 0 (s - d * (n + 1))"
proof -
  have e: "d * (n + 1) = d * n + d" by (simp add: algebra_simps)
  have p: "0 \<le> d * n" using assms(1,2) by simp
  show ?thesis
    using assms(3,4) p unfolding e max_def by (auto split: if_splits)
qed

lemma decay_run:
  assumes "\<forall>i\<in>set inputs. \<not> accelerate i \<and> \<not> brake i"
  shows "\<bar>speed (run inputs v)\<bar> \<le> max 0 (\<bar>speed v\<bar> - deceleration * real (length inputs))"
  using assms
proof (induction inputs arbitrary: v)
  case Nil
  then show ?case by simp
next
  case (Cons i inputs)
  have step: "\<bar>speed (update i v)\<bar> \<le> max 0 (\<bar>speed v\<bar> - deceleration)"
    using Cons.prems by (simp add: decay_update(1))
  have "\<bar>speed (run inputs (update i v))\<bar>
        \<le> max 0 (\<bar>speed (update i v)\<bar> - deceleration * real (length inputs))"
    using Cons.prems by (intro Cons.IH) simp
  with step max_chain[of deceleration "real (length inputs)" "\<bar>speed (update i v)\<bar>"
      "\<bar>speed v\<bar>" "\<bar>speed (run inputs (update i v))\<bar>"]
  show ?case
    by (simp add: deceleration_def add.commute)
qed

text \<open>
  Claim C6, as amended.  On a frame with neither accelerate nor brake held (steering is
  free), from any speed: a speed other than 0 strictly decreases in absolute value; a
  speed of 0 stays 0; the speed never changes sign, so 0 is not overshot.  The amount is
  that of the two steps of \<open>update\<close>: the longitudinal rule of \<open>handleInput\<close> takes
  \<open>deceleration\<close> off the absolute value and stops at 0, giving the speed of \<open>w\<close>, and
  the boundary clamp then halves that once for each coordinate it clamps; so the
  decrease is \<open>deceleration\<close> only on a frame that stays inside the arena.  After
  enough such frames (one more than the starting absolute value divided by
  \<open>deceleration\<close>) the speed is exactly 0.
\<close>

theorem no_input_decay:
  assumes "\<not> accelerate i" "\<not> brake i"
    and "\<forall>j\<in>set inputs. \<not> accelerate j \<and> \<not> brake j"
    and "w = handleInput i v"
  shows "(speed v \<noteq> 0 \<longrightarrow> \<bar>speed (update i v)\<bar> < \<bar>speed v\<bar>)
       \<and> (speed v = 0 \<longrightarrow> speed (update i v) = 0)
       \<and> 0 \<le> speed v * speed (update i v)
       \<and> \<bar>speed w\<bar> = max 0 (\<bar>speed v\<bar> - deceleration)
       \<and> speed (update i v) =
           speed w
             * (if \<bar>vx (position w) + sin (rotation w) * speed w\<bar> > boundary then 0.5 else 1)
             * (if \<bar>vz (position w) + cos (rotation w) * speed w\<bar> > boundary then 0.5 else 1)
       \<and> (\<bar>speed v\<bar> + deceleration \<le> deceleration * real (length inputs) \<longrightarrow>
            speed (run inputs v) = 0)"
proof (intro conjI impI)
  assume "speed v \<noteq> 0"
  with decay_update(1)[OF assms(1,2), of v] show "\<bar>speed (update i v)\<bar> < \<bar>speed v\<bar>"
    by (simp add: deceleration_def max_def split: if_splits)
next
  assume "speed v = 0"
  with decay_update(1)[OF assms(1,2), of v] show "speed (update i v) = 0"
    by (simp add: deceleration_def)
next
  show "0 \<le> speed v * speed (update i v)"
    by (rule decay_update(2)[OF assms(1,2)])
next
  show "\<bar>speed w\<bar> = max 0 (\<bar>speed v\<bar> - deceleration)"
    unfolding assms(4) by (rule decay_handleInput(1)[OF assms(1,2)])
next
  show "speed (update i v) =
           speed w
             * (if \<bar>vx (position w) + sin (rotation w) * speed w\<bar> > boundary then 0.5 else 1)
             * (if \<bar>vz (position w) + cos (rotation w) * speed w\<bar> > boundary then 0.5 else 1)"
    unfolding assms(4) update_def by (rule speed_applyPhysics)
next
  assume "\<bar>speed v\<bar> + deceleration \<le> deceleration * real (length inputs)"
  then have "\<bar>speed v\<bar> \<le> deceleration * real (length inputs)"
    by (simp add: deceleration_def)
  with decay_run[OF assms(3), of v] show "speed (run inputs v) = 0"
    by simp
qed

lemma deadzone_step:
  "\<bar>speed (handleInput i v)\<bar> \<le> 0.01 \<Longrightarrow> rotation (update i v) = rotation v"
  by (simp add: update_turn_rotation rotation_handleInput currentTurn_handleInput)

lemma deadzone_run: "deadzoneTicks inputs v \<Longrightarrow> rotation (run inputs v) = rotation v"
  by (induction inputs arbitrary: v) (simp_all add: deadzone_step)

lemma rest_deadzone:
  "speed v = 0 \<Longrightarrow> \<forall>i\<in>set inputs. \<not> accelerate i \<and> \<not> brake i \<Longrightarrow> deadzoneTicks inputs v"
proof (induction inputs arbitrary: v)
  case Nil
  then show ?case by simp
next
  case (Cons i inputs)
  have na: "\<not> accelerate i" "\<not> brake i" using Cons.prems by simp_all
  have h: "speed (handleInput i v) = 0"
    using Cons.prems(1) na by (simp add: speed_handleInput)
  have "\<bar>speed (update i v)\<bar> \<le> max 0 (\<bar>speed v\<bar> - deceleration)"
    by (rule decay_update(1)[OF na])
  then have u: "speed (update i v) = 0"
    using Cons.prems(1) by (simp add: deceleration_def)
  have "deadzoneTicks inputs (update i v)"
    using u Cons.prems(2) by (intro Cons.IH) simp_all
  with h show ?case by simp
qed

text \<open>
  Claim C7, as amended.  Over any number of frames and whatever steering is held: if on
  each frame the speed that the steering test reads (the one \<open>handleInput\<close> has just
  computed from accelerate and brake, before the position update) is at or below 0.01
  in absolute value, then the heading \<open>rotation\<close> after the frames is the one before
  them.  In particular this is so for a vehicle at rest on which neither accelerate nor
  brake is pressed, steering held or not.
\<close>

theorem steering_deadzone:
  "(deadzoneTicks inputs v \<longrightarrow> rotation (run inputs v) = rotation v)
   \<and> (speed v = 0 \<and> (\<forall>i\<in>set inputs. \<not> accelerate i \<and> \<not> brake i) \<longrightarrow>
        deadzoneTicks inputs v \<and> rotation (run inputs v) = rotation v)"
  using deadzone_run rest_deadzone by blast

text \<open>
  Claim C8, as amended.  Let \<open>w\<close> be the state after \<open>handleInput\<close> and \<open>x1\<close>,
  \<open>z1\<close> the coordinates that the position update computes from it.  A coordinate
  beyond the boundary 50 in absolute value is set to exactly plus or minus the boundary,
  one within it is kept; and the speed is multiplied by 0.5 once for each clamped
  coordinate: by 0.5 when exactly one of the two is clamped, by 0.25 when both are, and
  left as it is when none is.
\<close>

theorem boundary_clamp:
  assumes "w = handleInput i v"
    and "x1 = vx (position w) + sin (rotation w) * speed w"
    and "z1 = vz (position w) + cos (rotation w) * speed w"
    and "u = update i v"
  shows "(\<bar>x1\<bar> > boundary \<longrightarrow> vx (position u) = sgn x1 * boundary \<and> \<bar>vx (position u)\<bar> = boundary)
       \<and> (\<bar>z1\<bar> > boundary \<longrightarrow> vz (position u) = sgn z1 * boundary \<and> \<bar>vz (position u)\<bar> = boundary)
       \<and> (\<bar>x1\<bar> \<le> boundary \<longrightarrow> vx (position u) = x1)
       \<and> (\<bar>z1\<bar> \<le> boundary \<longrightarrow> vz (position u) = z1)
       \<and> (\<bar>x1\<bar> > boundary \<and> \<bar>z1\<bar> \<le> boundary \<longrightarrow> speed u = speed w * 0.5)
       \<and> (\<bar>x1\<bar> \<le> boundary \<and> \<bar>z1\<bar> > boundary \<longrightarrow> speed u = speed w * 0.5)
       \<and> (\<bar>x1\<bar> > boundary \<and> \<bar>z1\<bar> > boundary \<longrightarrow> speed u = speed w * 0.25)
       \<and> (\<bar>x1\<bar> \<le> boundary \<and> \<bar>z1\<bar> \<le> boundary \<longrightarrow> speed u = speed w)"
  unfolding assms update_def
  by (auto simp add: vx_applyPhysics vz_applyPhysics speed_applyPhysics boundary_def abs_mult)





section \<open>BurgerVehicle: accelerating from rest\<close>

lemma abs_sin_mult_le: "\<bar>sin r * s\<bar> \<le> \<bar>s :: real\<bar>"
proof -
  have "\<bar>sin r\<bar> * \<bar>s\<bar> \<le> 1 * \<bar>s\<bar>"
    by (rule mult_right_mono) simp_all
  then show ?thesis by (simp add: abs_mult)
qed

lemma abs_cos_mult_le: "\<bar>cos r * s\<bar> \<le> \<bar>s :: real\<bar>"
proof -
  have "\<bar>cos r\<bar> * \<bar>s\<bar> \<le> 1 * \<bar>s\<bar>"
    by (rule mult_right_mono) simp_all
  then show ?thesis by (simp add: abs_mult)
qed

lemma step_inside:
  assumes "\<bar>vx (position v)\<bar> \<le> B" "\<bar>vz (position v)\<bar> \<le> B"
    and "\<bar>speed (handleInput i v)\<bar> \<le> c" "B + c \<le> boundary"
  shows "speed (update i v) = speed (handleInput i v)
       \<and> \<bar>vx (position (update i v))\<bar> \<le> B + c
       \<and> \<bar>vz (position (update i v))\<bar> \<le> B + c"
proof -
  let ?w = "handleInput i v"
  let ?x1 = "vx (position ?w) + sin (rotation ?w) * speed ?w"
  let ?z1 = "vz (position ?w) + cos (rotation ?w) * speed ?w"
  have x: "\<bar>?x1\<bar> \<le> B + c"
    using assms(1,3) abs_sin_mult_le[of "rotation ?w" "speed ?w"]
    by (simp add: position_handleInput)
  have z: "\<bar>?z1\<bar> \<le> B + c"
    using assms(2,3) abs_cos_mult_le[of "rotation ?w" "speed ?w"]
    by (simp add: position_handleInput)
  from x z assms(4) have nx: "\<not> \<bar>?x1\<bar> > boundary" and nz: "\<not> \<bar>?z1\<bar> > boundary"
    by simp_all
  show ?thesis
    using x z nx nz
    by (simp add: update_def speed_applyPhysics vx_applyPhysics vz_applyPhysics)
qed

lemma travelled_Suc:
  "travelled (Suc n) = travelled n + min (real (Suc n) * acceleration) maxSpeed"
proof -
  consider "n \<le> 36" | "n = 37" | "38 \<le> n" by linarith
  then show ?thesis
  proof cases
    case 1
    then have "real n \<le> 36" by simp
    then have m: "min ((real n + 1) * 0.008) (0.3::real) = (real n + 1) * 0.008" by simp
    from 1 have "travelled (Suc n) = 0.004 * (real n + 1) * (real n + 1 + 1)"
      and "travelled n = 0.004 * real n * (real n + 1)"
      by (simp_all add: travelled_def add.commute)
    with m show ?thesis
      by (simp add: acceleration_def maxSpeed_def field_simps)
  next
    case 2
    then show ?thesis
      by (simp add: travelled_def acceleration_def maxSpeed_def)
  next
    case 3
    then have "38 \<le> real n" by simp
    then have m: "min ((real n + 1) * 0.008) (0.3::real) = 0.3" by simp
    from 3 have "travelled (Suc n) = 0.3 * (real n + 1) - 5.476"
      and "travelled n = 0.3 * real n - 5.476"
      by (simp_all add: travelled_def add.commute)
    with m show ?thesis
      by (simp add: acceleration_def maxSpeed_def field_simps)
  qed
qed

lemma travelled_le: "n \<le> 184 \<Longrightarrow> travelled n \<le> boundary"
proof -
  assume n: "n \<le> 184"
  show ?thesis
  proof (cases "n \<le> 37")
    case True
    then have a: "real n \<le> 37" by simp
    have "real n * (real n + 1) \<le> 37 * (37 + 1)"
      using a by (intro mult_mono) simp_all
    with True show ?thesis by (simp add: travelled_def boundary_def)
  next
    case False
    from n have "real n \<le> 184" by simp
    with False show ?thesis by (simp add: travelled_def boundary_def)
  qed
qed

lemma accel_speed_step:
  assumes "accelerate i" "speed v = min (real n * acceleration) maxSpeed"
  shows "speed (handleInput i v) = min (real (Suc n) * acceleration) maxSpeed"
    and "0 \<le> speed (handleInput i v)"
  using assms
  by (simp_all add: speed_handleInput acceleration_def maxSpeed_def min_def algebra_simps)

lemma accel_run_inv:
  assumes "\<forall>i\<in>set inputs. accelerate i" "n + length inputs \<le> 184"
    and "speed v = min (real n * acceleration) maxSpeed"
    and "\<bar>vx (position v)\<bar> \<le> travelled n" "\<bar>vz (position v)\<bar> \<le> travelled n"
  shows "speed (run inputs v) = min (real (n + length inputs) * acceleration) maxSpeed"
  using assms
proof (induction inputs arbitrary: v n)
  case Nil
  then show ?case by simp
next
  case (Cons i inputs)
  have acc: "accelerate i" using Cons.prems(1) by simp
  note h = accel_speed_step[OF acc Cons.prems(3)]
  have t: "travelled n + min (real (Suc n) * acceleration) maxSpeed \<le> boundary"
    using travelled_le[of "Suc n"] Cons.prems(2) by (simp add: travelled_Suc)
  have c: "\<bar>speed (handleInput i v)\<bar> \<le> min (real (Suc n) * acceleration) maxSpeed"
    using h by simp
  note s = step_inside[OF Cons.prems(4,5) c t]
  have "speed (run inputs (update i v))
          = min (real (Suc n + length inputs) * acceleration) maxSpeed"
  proof (rule Cons.IH)
    show "\<forall>i\<in>set inputs. accelerate i" using Cons.prems(1) by simp
    show "Suc n + length inputs \<le> 184" using Cons.prems(2) by simp
    show "speed (update i v) = min (real (Suc n) * acceleration) maxSpeed"
      using s h(1) by simp
    show "\<bar>vx (position (update i v))\<bar> \<le> travelled (Suc n)"
      using s by (simp add: travelled_Suc)
    show "\<bar>vz (position (update i v))\<bar> \<le> travelled (Suc n)"
      using s by (simp add: travelled_Suc)
  qed
  then show ?case by simp
qed

text \<open>
  Claim C9, as amended.  From the new vehicle (at the origin, speed 0), with accelerate
  held on each of \<open>n \<le> 184\<close> frames and any steering: each frame sets the speed to
  \<open>min (speed + 0.008) 0.3\<close>; through frame 37 the speed is below the cap 0.3 and within
  \<open>1 / 10 ^ 9\<close> of \<open>n * 0.008\<close>; from frame 38 on it is exactly the cap.  (Within 184
  frames the vehicle cannot have reached the boundary.)
\<close>

theorem accelerate_to_cap:
  assumes "\<forall>i\<in>set inputs. accelerate i" "length inputs \<le> 184"
  shows "(length inputs \<le> 37 \<longrightarrow>
            speed (run inputs newVehicle) < maxSpeed
            \<and> \<bar>speed (run inputs newVehicle) - real (length inputs) * acceleration\<bar> \<le> 1 / 10 ^ 9)
       \<and> (38 \<le> length inputs \<longrightarrow> speed (run inputs newVehicle) = maxSpeed)
       \<and> (inputs = prev @ [i] \<longrightarrow>
            speed (run inputs newVehicle) = min (speed (run prev newVehicle) + acceleration) maxSpeed)"
proof -
  have e: "speed (run inputs newVehicle) = min (real (length inputs) * acceleration) maxSpeed"
    using accel_run_inv[of inputs 0 newVehicle] assms
    by (simp add: newVehicle_def travelled_def maxSpeed_def)
  have low: "speed (run inputs newVehicle) < maxSpeed
      \<and> \<bar>speed (run inputs newVehicle) - real (length inputs) * acceleration\<bar> \<le> 1 / 10 ^ 9"
    if "length inputs \<le> 37"
  proof -
    from that have "real (length inputs) \<le> 37" by simp
    then have "real (length inputs) * 0.008 < (0.3 :: real)" by simp
    then show ?thesis
      unfolding e by (simp add: acceleration_def maxSpeed_def)
  qed
  have high: "speed (run inputs newVehicle) = maxSpeed" if "38 \<le> length inputs"
  proof -
    from that have "38 \<le> real (length inputs)" by simp
    then show ?thesis
      unfolding e by (simp add: acceleration_def maxSpeed_def min_def)
  qed
  have rec: "speed (run inputs newVehicle) = min (speed (run prev newVehicle) + acceleration) maxSpeed"
    if p: "inputs = prev @ [i]"
  proof -
    have "\<forall>i\<in>set prev. accelerate i" "0 + length prev \<le> 184"
      using assms p by simp_all
    then have "speed (run prev newVehicle) = min (real (0 + length prev) * acceleration) maxSpeed"
      by (intro accel_run_inv) (simp_all add: newVehicle_def travelled_def maxSpeed_def)
    moreover have "speed (run (prev @ [i]) newVehicle)
        = min ((real (length prev) + 1) * acceleration) maxSpeed"
      using e unfolding p by (simp add: add.commute)
    ultimately show ?thesis
      unfolding p
      by (simp add: acceleration_def maxSpeed_def min_def algebra_simps)
  qed
  from low high rec show ?thesis by blast
qed


section \<open>BurgerVehicle: runs evaluated\<close>

lemmas vehicle_eval =
  update_def handleInput_def applyPhysics_def Let_def newVehicle_def
  maxSpeed_def acceleration_def deceleration_def turnSpeed_def boundary_def maxReverseSpeed_def
  noInput_def accelOnly_def leftOnly_def accelLeft_def

lemma one_frame_accel: "update accelOnly newVehicle =
   \<lparr>position = \<lparr>vx = 0, vy = 0.5, vz = 0.008\<rparr>, rotation = 0, speed = 0.008, currentTurn = 0\<rparr>"
  by (simp add: vehicle_eval)

lemma two_frames_accel: "run [accelOnly, accelOnly] newVehicle =
   \<lparr>position = \<lparr>vx = 0, vy = 0.5, vz = 0.024\<rparr>, rotation = 0, speed = 0.016, currentTurn = 0\<rparr>"
  by (simp add: one_frame_accel) (simp add: vehicle_eval)


text \<open>
  The amended claim C6 at concrete inputs: after two frames of acceleration a frame
  without input lowers the speed by \<open>deceleration\<close>, and three frames without
  accelerate or brake bring it to 0; the vehicle at rest stays at rest; at the wall a frame
  without input takes \<open>deceleration\<close> off and halves the rest.
\<close>

theorem no_input_decay_witness:
  "\<not> accelerate noInput \<and> \<not> brake noInput \<and> \<not> accelerate leftOnly \<and> \<not> brake leftOnly
   \<and> speed (run [accelOnly, accelOnly] newVehicle) \<noteq> 0
   \<and> \<bar>speed (update noInput (run [accelOnly, accelOnly] newVehicle))\<bar>
        < \<bar>speed (run [accelOnly, accelOnly] newVehicle)\<bar>
   \<and> \<bar>speed (update noInput (run [accelOnly, accelOnly] newVehicle))\<bar>
        = \<bar>speed (run [accelOnly, accelOnly] newVehicle)\<bar> - deceleration
   \<and> speed newVehicle = 0
   \<and> speed (update noInput newVehicle) = 0
   \<and> \<bar>speed (run [accelOnly, accelOnly] newVehicle)\<bar> + deceleration
        \<le> deceleration * real (length [noInput, leftOnly, noInput])
   \<and> speed (run [noInput, leftOnly, noInput] (run [accelOnly, accelOnly] newVehicle)) = 0
   \<and> speed (update noInput wallVehicle) = (speed wallVehicle - deceleration) * 0.5"
proof -
  have a: "\<not> accelerate noInput" "\<not> brake noInput"
    and b: "\<forall>j\<in>set [noInput, leftOnly, noInput]. \<not> accelerate j \<and> \<not> brake j"
    and e: "\<forall>j\<in>set ([] :: input list). \<not> accelerate j \<and> \<not> brake j"
    by (simp_all add: noInput_def leftOnly_def)
  have w2: "handleInput noInput (run [accelOnly, accelOnly] newVehicle)
      = \<lparr>position = \<lparr>vx = 0, vy = 0.5, vz = 0.024\<rparr>, rotation = 0, speed = 0.006, currentTurn = 0\<rparr>"
    unfolding two_frames_accel
    by (simp add: handleInput_def Let_def noInput_def deceleration_def)
  have ww: "handleInput noInput wallVehicle
      = \<lparr>position = \<lparr>vx = 0, vy = 0.5, vz = 50\<rparr>, rotation = 0, speed = 0.09, currentTurn = 0\<rparr>"
    by (simp add: handleInput_def Let_def noInput_def wallVehicle_def deceleration_def)
  from no_input_decay[OF a b refl, of "run [accelOnly, accelOnly] newVehicle"]
  have moving: "\<bar>speed (update noInput (run [accelOnly, accelOnly] newVehicle))\<bar>
        < \<bar>speed (run [accelOnly, accelOnly] newVehicle)\<bar>
   \<and> \<bar>speed (update noInput (run [accelOnly, accelOnly] newVehicle))\<bar>
        = \<bar>speed (run [accelOnly, accelOnly] newVehicle)\<bar> - deceleration
   \<and> speed (run [noInput, leftOnly, noInput] (run [accelOnly, accelOnly] newVehicle)) = 0"
    unfolding w2 unfolding two_frames_accel
    by (simp add: deceleration_def boundary_def)
  from no_input_decay[OF a e refl, of newVehicle]
  have rest: "speed (update noInput newVehicle) = 0"
    by (simp add: newVehicle_def)
  from no_input_decay[OF a e refl, of wallVehicle]
  have wall: "speed (update noInput wallVehicle) = (speed wallVehicle - deceleration) * 0.5"
    unfolding ww by (simp add: wallVehicle_def deceleration_def boundary_def)
  from moving rest wall show ?thesis
    unfolding two_frames_accel
    by (simp add: noInput_def leftOnly_def newVehicle_def deceleration_def)
qed

text \<open>
  The amended claim C7 at a concrete input: three frames with left held on the vehicle at rest
  leave the heading at 0.
\<close>

theorem steering_deadzone_witness:
  "deadzoneTicks [leftOnly, leftOnly, leftOnly] newVehicle
   \<and> speed newVehicle = 0 \<and> \<not> accelerate leftOnly \<and> \<not> brake leftOnly
   \<and> rotation (run [leftOnly, leftOnly, leftOnly] newVehicle) = rotation newVehicle
   \<and> rotation (run [leftOnly, leftOnly, leftOnly] newVehicle) = 0"
  using steering_deadzone[of "[leftOnly, leftOnly, leftOnly]" newVehicle]
  by (simp add: leftOnly_def newVehicle_def)

lemma straight_step:
  assumes "Suc n \<le> 184"
  shows "update accelOnly
           \<lparr>position = \<lparr>vx = 0, vy = 0.5, vz = travelled n\<rparr>, rotation = 0,
              speed = min (real n * acceleration) maxSpeed, currentTurn = 0\<rparr>
         = \<lparr>position = \<lparr>vx = 0, vy = 0.5, vz = travelled (Suc n)\<rparr>, rotation = 0,
              speed = min (real (Suc n) * acceleration) maxSpeed, currentTurn = 0\<rparr>"
proof -
  let ?v = "\<lparr>position = \<lparr>vx = 0, vy = 0.5, vz = travelled n\<rparr>, rotation = 0,
              speed = min (real n * acceleration) maxSpeed, currentTurn = 0\<rparr>"
  have acc: "accelerate accelOnly" by (simp add: accelOnly_def)
  have sp: "speed (handleInput accelOnly ?v) = min (real (Suc n) * acceleration) maxSpeed"
    by (rule accel_speed_step(1)[OF acc]) simp
  have w: "handleInput accelOnly ?v
           = \<lparr>position = \<lparr>vx = 0, vy = 0.5, vz = travelled n\<rparr>, rotation = 0,
              speed = min (real (Suc n) * acceleration) maxSpeed, currentTurn = 0\<rparr>"
    using sp by (simp add: handleInput_def Let_def accelOnly_def)
  have t: "travelled (Suc n) \<le> boundary" by (rule travelled_le[OF assms])
  have p: "0 \<le> travelled (Suc n)"
    by (simp add: travelled_def)
  from t p have nz: "\<not> \<bar>travelled (Suc n)\<bar> > boundary" by simp
  show ?thesis
    unfolding update_def w using nz
    by (simp add: applyPhysics_def Let_def travelled_Suc boundary_def)
qed

lemma run_replicate_Suc: "run (replicate (Suc n) i) v = update i (run (replicate n i) v)"
proof -
  have "replicate (Suc n) i = replicate n i @ [i]"
    by (simp add: replicate_append_same)
  then show ?thesis
    by (simp only: run_append run.simps)
qed

lemma straight_run:
  "n \<le> 184 \<Longrightarrow>
   run (replicate n accelOnly) newVehicle
     = \<lparr>position = \<lparr>vx = 0, vy = 0.5, vz = travelled n\<rparr>, rotation = 0,
          speed = min (real n * acceleration) maxSpeed, currentTurn = 0\<rparr>"
proof (induction n)
  case 0
  then show ?case by (simp add: newVehicle_def travelled_def maxSpeed_def)
next
  case (Suc n)
  have "run (replicate (Suc n) accelOnly) newVehicle
          = update accelOnly (run (replicate n accelOnly) newVehicle)"
    by (rule run_replicate_Suc)
  also have "\<dots> = update accelOnly
           \<lparr>position = \<lparr>vx = 0, vy = 0.5, vz = travelled n\<rparr>, rotation = 0,
              speed = min (real n * acceleration) maxSpeed, currentTurn = 0\<rparr>"
    using Suc by simp
  also have "\<dots> = \<lparr>position = \<lparr>vx = 0, vy = 0.5, vz = travelled (Suc n)\<rparr>, rotation = 0,
              speed = min (real (Suc n) * acceleration) maxSpeed, currentTurn = 0\<rparr>"
    by (rule straight_step) (use Suc.prems in simp)
  finally show ?case .
qed

text \<open>
  Claim C9 as stated fails at frame 185: with accelerate alone held from the new
  vehicle, the vehicle has covered 49.724 after 184 frames; frame 185 carries it past
  the boundary, and the clamp halves the capped speed to 0.15.
\<close>

theorem boundary_ends_cap_counterexample:
  "speed (run (replicate 185 accelOnly) newVehicle) = 0.15
   \<and> min (real 185 * acceleration) maxSpeed = 0.3
   \<and> speed (run (replicate 185 accelOnly) newVehicle) \<noteq> min (real 185 * acceleration) maxSpeed"
proof -
  have "run (replicate 185 accelOnly) newVehicle
          = update accelOnly (run (replicate 184 accelOnly) newVehicle)"
    using run_replicate_Suc[of 184 accelOnly newVehicle] by simp
  also have "\<dots> = update accelOnly
           \<lparr>position = \<lparr>vx = 0, vy = 0.5, vz = travelled 184\<rparr>, rotation = 0,
              speed = min (real 184 * acceleration) maxSpeed, currentTurn = 0\<rparr>"
    by (simp add: straight_run)
  also have "\<dots> = \<lparr>position = \<lparr>vx = 0, vy = 0.5, vz = 50\<rparr>, rotation = 0,
              speed = 0.15, currentTurn = 0\<rparr>"
    by (simp add: travelled_def vehicle_eval)
  finally show ?thesis by (simp add: acceleration_def maxSpeed_def)
qed

text \<open>
  The amended claim C9 at concrete inputs: 50 frames with accelerate and left held end
  at the cap; with accelerate alone the speed is below the cap after 37 frames and at the
  cap after 38, frame 38 being one step of the rule from frame 37.
\<close>

theorem accelerate_to_cap_witness:
  "accelerate accelLeft \<and> accelerate accelOnly \<and> length (replicate 50 accelLeft) \<le> 184
   \<and> speed (run (replicate 50 accelLeft) newVehicle) = maxSpeed
   \<and> speed (run (replicate 37 accelOnly) newVehicle) < maxSpeed
   \<and> speed (run (replicate 38 accelOnly) newVehicle) = maxSpeed
   \<and> speed (run (replicate 37 accelOnly @ [accelOnly]) newVehicle)
       = min (speed (run (replicate 37 accelOnly) newVehicle) + acceleration) maxSpeed"
  using accelerate_to_cap[of "replicate 50 accelLeft" "[]" accelLeft]
    accelerate_to_cap[of "replicate 37 accelOnly" "[]" accelOnly]
    accelerate_to_cap[of "replicate 38 accelOnly" "[]" accelOnly]
    accelerate_to_cap[of "replicate 37 accelOnly @ [accelOnly]" "replicate 37 accelOnly" accelOnly]
  by (simp add: accelLeft_def accelOnly_def)

text \<open>The states at the wall: after 185 frames of acceleration straight ahead, and
  after one, two and three frames without input from there.\<close>

lemma wall_after_185:
  "run (replicate 185 accelOnly) newVehicle
     = \<lparr>position = \<lparr>vx = 0, vy = 0.5, vz = 50\<rparr>, rotation = 0, speed = 0.15, currentTurn = 0\<rparr>"
proof -
  have "run (replicate 185 accelOnly) newVehicle
          = update accelOnly (run (replicate 184 accelOnly) newVehicle)"
    using run_replicate_Suc[of 184 accelOnly newVehicle] by simp
  also have "\<dots> = update accelOnly
           \<lparr>position = \<lparr>vx = 0, vy = 0.5, vz = travelled 184\<rparr>, rotation = 0,
              speed = min (real 184 * acceleration) maxSpeed, currentTurn = 0\<rparr>"
    by (simp add: straight_run)
  also have "\<dots> = \<lparr>position = \<lparr>vx = 0, vy = 0.5, vz = 50\<rparr>, rotation = 0,
              speed = 0.15, currentTurn = 0\<rparr>"
    by (simp add: travelled_def vehicle_eval)
  finally show ?thesis .
qed

lemma release_at_wall:
  "update noInput (run (replicate 185 accelOnly) newVehicle)
     = \<lparr>position = \<lparr>vx = 0, vy = 0.5, vz = 50\<rparr>, rotation = 0, speed = 0.07, currentTurn = 0\<rparr>"
  unfolding wall_after_185 by (simp add: vehicle_eval)

lemma release_at_wall2:
  "update noInput (update noInput (run (replicate 185 accelOnly) newVehicle))
     = \<lparr>position = \<lparr>vx = 0, vy = 0.5, vz = 50\<rparr>, rotation = 0, speed = 0.03, currentTurn = 0\<rparr>"
  unfolding release_at_wall by (simp add: vehicle_eval)

lemma stalled_at_wall:
  "run wallFrames newVehicle
     = \<lparr>position = \<lparr>vx = 0, vy = 0.5, vz = 50\<rparr>, rotation = 0, speed = 0.01, currentTurn = 0\<rparr>"
proof -
  have "run wallFrames newVehicle
          = update noInput (update noInput (update noInput
              (run (replicate 185 accelOnly) newVehicle)))"
    by (simp only: wallFrames_def run_append run.simps)
  also have "\<dots> = \<lparr>position = \<lparr>vx = 0, vy = 0.5, vz = 50\<rparr>, rotation = 0, speed = 0.01,
                      currentTurn = 0\<rparr>"
    unfolding release_at_wall2 by (simp add: vehicle_eval)
  finally show ?thesis .
qed

text \<open>
  Claim C6 as stated fails at the wall: the vehicle that has just hit it at speed 0.15
  loses 0.08 on one frame without input, not \<open>deceleration\<close>: the rule takes 0.01 off
  and the clamp halves the rest.
\<close>

theorem wall_decay_counterexample:
  "speed (run (replicate 185 accelOnly) newVehicle) = 0.15
   \<and> speed (update noInput (run (replicate 185 accelOnly) newVehicle)) = (0.15 - deceleration) * 0.5
   \<and> \<bar>speed (run (replicate 185 accelOnly) newVehicle)\<bar>
        - \<bar>speed (update noInput (run (replicate 185 accelOnly) newVehicle))\<bar> \<noteq> deceleration"
  unfolding release_at_wall unfolding wall_after_185 by (simp add: deceleration_def)

text \<open>
  Claim C7 as stated fails for the speed of the vehicle between frames: at the wall, a
  vehicle at speed 0.01 on which accelerate and left are pressed reads the speed 0.018
  in the steering test and turns, and the clamp leaves it at speed 0.009: the speed is
  at or below 0.01 before and after the frame, and the heading has changed.
\<close>

theorem wall_steering_counterexample:
  "\<bar>speed (run wallFrames newVehicle)\<bar> \<le> 0.01
   \<and> \<bar>speed (update accelLeft (run wallFrames newVehicle))\<bar> \<le> 0.01
   \<and> rotation (update accelLeft (run wallFrames newVehicle)) \<noteq> rotation (run wallFrames newVehicle)"
proof -
  let ?v = "run wallFrames newVehicle"
  let ?w = "handleInput accelLeft ?v"
  have w: "?w = \<lparr>position = \<lparr>vx = 0, vy = 0.5, vz = 50\<rparr>, rotation = - 0.000054, speed = 0.018,
                 currentTurn = - 0.03\<rparr>"
    unfolding stalled_at_wall
    by (simp add: handleInput_def Let_def accelLeft_def acceleration_def maxSpeed_def turnSpeed_def)
  have c: "0 < cos (- 0.000054 :: real)"
  proof (rule cos_gt_zero_pi)
    show "- (pi / 2) < (- 0.000054 :: real)" using pi_ge_two by simp
    show "(- 0.000054 :: real) < pi / 2" using pi_ge_two by simp
  qed
  have x: "\<not> boundary < \<bar>0 + sin (- 0.000054 :: real) * 0.018\<bar>"
    using abs_sin_mult_le[of "- 0.000054" "0.018"] by (simp add: boundary_def)
  have z: "boundary < \<bar>50 + cos (- 0.000054 :: real) * 0.018\<bar>"
    using c by (simp add: boundary_def)
  have s: "speed (update accelLeft ?v) = 0.009"
    unfolding update_def w using x z by (simp add: speed_applyPhysics)
  have r: "rotation (update accelLeft ?v) = - 0.000054"
    unfolding update_def w by (simp add: rotation_applyPhysics)
  show ?thesis
    using s r by (simp add: stalled_at_wall)
qed






lemma sin_cos_three_quarters: "0 < sin (0.75::real) \<and> 0 < cos (0.75::real)"
proof -
  have "(0.75::real) < pi / 2" using pi_ge_two by simp
  then show ?thesis
    by (simp add: sin_gt_zero cos_gt_zero)
qed

text \<open>
  Claim C8 as stated fails in a corner of the arena: when both coordinates pass the
  boundary in one frame, both clamps multiply the speed by 0.5, and the speed after the
  frame is a quarter, not a half, of its value before the clamps.
\<close>

theorem corner_clamp_counterexample:
  "boundary < \<bar>vx (position (handleInput accelOnly cornerVehicle))
       + sin (rotation (handleInput accelOnly cornerVehicle)) * speed (handleInput accelOnly cornerVehicle)\<bar>
   \<and> speed (handleInput accelOnly cornerVehicle) = 0.108
   \<and> speed (update accelOnly cornerVehicle) = 0.027
   \<and> speed (update accelOnly cornerVehicle) \<noteq> speed (handleInput accelOnly cornerVehicle) * 0.5"
proof -
  have w: "handleInput accelOnly cornerVehicle = cornerVehicle\<lparr>speed := 0.108\<rparr>"
    by (simp add: handleInput_def Let_def accelOnly_def cornerVehicle_def acceleration_def
        maxSpeed_def)
  have x: "boundary < \<bar>50 + sin (0.75::real) * 0.108\<bar>"
    and z: "boundary < \<bar>50 + cos (0.75::real) * 0.108\<bar>"
    using sin_cos_three_quarters by (simp_all add: boundary_def)
  have "speed (update accelOnly cornerVehicle) = 0.027"
    unfolding update_def w using x z
    by (simp add: speed_applyPhysics cornerVehicle_def)
  with w x show ?thesis by (simp add: cornerVehicle_def)
qed

text \<open>
  The amended claim C8 at concrete inputs: at the wall \<open>z = 50\<close>, heading into it,
  only \<open>z\<close> is clamped and the speed 0.108 is halved to 0.054; in the corner both
  coordinates are clamped and the speed is quartered.
\<close>

theorem boundary_clamp_witness:
  "boundary < \<bar>vz (position (handleInput accelOnly wallVehicle))
       + cos (rotation (handleInput accelOnly wallVehicle)) * speed (handleInput accelOnly wallVehicle)\<bar>
   \<and> \<bar>vx (position (handleInput accelOnly wallVehicle))
       + sin (rotation (handleInput accelOnly wallVehicle)) * speed (handleInput accelOnly wallVehicle)\<bar> \<le> boundary
   \<and> vz (position (update accelOnly wallVehicle)) = boundary
   \<and> vx (position (update accelOnly wallVehicle)) = 0
   \<and> speed (handleInput accelOnly wallVehicle) = 0.108
   \<and> speed (update accelOnly wallVehicle) = 0.054
   \<and> vx (position (update accelOnly cornerVehicle)) = boundary
   \<and> vz (position (update accelOnly cornerVehicle)) = boundary
   \<and> speed (update accelOnly cornerVehicle) = speed (handleInput accelOnly cornerVehicle) * 0.25"
proof -
  have c: "handleInput accelOnly cornerVehicle = cornerVehicle\<lparr>speed := 0.108\<rparr>"
    by (simp add: handleInput_def Let_def accelOnly_def cornerVehicle_def acceleration_def
        maxSpeed_def)
  have x: "boundary < \<bar>50 + sin (0.75::real) * 0.108\<bar>"
    and z: "boundary < \<bar>50 + cos (0.75::real) * 0.108\<bar>"
    using sin_cos_three_quarters by (simp_all add: boundary_def)
  have p: "0 < 50 + sin (0.75::real) * 0.108" "0 < 50 + cos (0.75::real) * 0.108"
    using sin_cos_three_quarters by (simp_all add: add_pos_pos)
  have corner: "vx (position (update accelOnly cornerVehicle)) = boundary
     \<and> vz (position (update accelOnly cornerVehicle)) = boundary
     \<and> speed (update accelOnly cornerVehicle) = speed (handleInput accelOnly cornerVehicle) * 0.25"
    using boundary_clamp[OF refl refl refl refl, of accelOnly cornerVehicle] x z p
    unfolding c by (simp add: cornerVehicle_def)
  have w: "handleInput accelOnly wallVehicle = wallVehicle\<lparr>speed := 0.108\<rparr>"
    by (simp add: handleInput_def Let_def accelOnly_def wallVehicle_def acceleration_def
        maxSpeed_def)
  have wall: "boundary < \<bar>vz (position (handleInput accelOnly wallVehicle))
       + cos (rotation (handleInput accelOnly wallVehicle)) * speed (handleInput accelOnly wallVehicle)\<bar>
   \<and> \<bar>vx (position (handleInput accelOnly wallVehicle))
       + sin (rotation (handleInput accelOnly wallVehicle)) * speed (handleInput accelOnly wallVehicle)\<bar> \<le> boundary
   \<and> vz (position (update accelOnly wallVehicle)) = boundary
   \<and> vx (position (update accelOnly wallVehicle)) = 0
   \<and> speed (handleInput accelOnly wallVehicle) = 0.108
   \<and> speed (update accelOnly wallVehicle) = 0.054"
    using boundary_clamp[OF refl refl refl refl, of accelOnly wallVehicle]
    unfolding w by (simp add: wallVehicle_def boundary_def)
  from wall corner show ?thesis by simp
qed


section \<open>RacingGame: checkpoints and laps\<close>

lemma sqrt_less_iff:
  assumes "0 < r"
  shows "sqrt x < r \<longleftrightarrow> x < r * r"
proof -
  have "sqrt x < r \<longleftrightarrow> sqrt x < sqrt (r * r)"
    using assms by simp
  also have "\<dots> \<longleftrightarrow> x < r * r"
    by (rule real_sqrt_less_iff)
  finally show ?thesis .
qed

lemma dist_atA: "distanceTo atA cpA < 3"
  by (simp add: distanceTo_less_iff distanceToSquared_def atA_def cpA_def)

lemma dist_nearA: "\<not> distanceTo nearA cpA < 3"
  by (simp add: distanceTo_less_iff distanceToSquared_def nearA_def cpA_def)

lemma dist_farA: "\<not> distanceTo farA cpA < 3"
  by (simp add: distanceTo_less_iff distanceToSquared_def farA_def cpA_def)

lemma planar_nearA: "planarDistance nearA cpA < 3"
  by (simp add: planarDistance_def sqrt_less_iff nearA_def cpA_def)

lemma checkCheckpoints_step:
  assumes "currentCheckpoint g < length (checkpoints g)"
  shows "\<exists>g'. checkCheckpoints vehiclePos now1 now2 g = Inr g'
     \<and> checkpoints g' = checkpoints g
     \<and> currentCheckpoint g' < length (checkpoints g')
     \<and> (distanceTo vehiclePos (checkpoints g ! currentCheckpoint g) < 3 \<longrightarrow>
          currentCheckpoint g' = (currentCheckpoint g + 1) mod length (checkpoints g))
     \<and> (\<not> distanceTo vehiclePos (checkpoints g ! currentCheckpoint g) < 3 \<longrightarrow> g' = g)"
  using assms
  by (auto simp add: checkCheckpoints_def Let_def not_less le_Suc_eq)

lemma checkAll_cursor:
  assumes "currentCheckpoint g < length (checkpoints g)"
  shows "\<exists>g'. checkAll calls g = Inr g' \<and> checkpoints g' = checkpoints g
     \<and> currentCheckpoint g' < length (checkpoints g')"
  using assms
proof (induction calls arbitrary: g)
  case Nil
  then show ?case by simp
next
  case (Cons c calls)
  obtain p now1 now2 where c: "c = (p, now1, now2)" by (cases c) auto
  from checkCheckpoints_step[OF Cons.prems, of p now1 now2]
  obtain g1 where g1: "checkCheckpoints p now1 now2 g = Inr g1"
    "checkpoints g1 = checkpoints g" "currentCheckpoint g1 < length (checkpoints g1)"
    by blast
  from Cons.IH[OF g1(3)] g1(1,2) c show ?case by auto
qed

text \<open>
  Claim C1, as amended.  When the cursor is on the last checkpoint of the list and the
  vehicle is at a distance below 3 from it, \<open>checkCheckpoints\<close> returns normally with
  the cursor reset to 0, \<open>lapCount\<close> increased by exactly 1, \<open>bestTime\<close> set to the
  lap time on the first lap (when it is \<open>Infinity\<close>) and to the minimum of its previous
  value and the lap time afterwards, and \<open>startTime\<close> reset to the second clock
  reading; the lap time is in seconds, the difference of the first clock reading and
  \<open>startTime\<close> (both in milliseconds) divided by 1000.
\<close>

theorem lap_completion:
  assumes "currentCheckpoint g + 1 = length (checkpoints g)"
    and "distanceTo vehiclePos (checkpoints g ! currentCheckpoint g) < 3"
  shows "\<exists>g'. checkCheckpoints vehiclePos now1 now2 g = Inr g'
     \<and> currentCheckpoint g' = 0
     \<and> lapCount g' = lapCount g + 1
     \<and> bestTime g' =
         (case bestTime g of
            Infinity \<Rightarrow> Finite (real_of_int (now1 - startTime g) / 1000)
          | Finite b \<Rightarrow> Finite (min b (real_of_int (now1 - startTime g) / 1000)))
     \<and> startTime g' = now2
     \<and> checkpoints g' = checkpoints g"
  using assms
  by (cases "bestTime g") (auto simp add: checkCheckpoints_def Let_def min_def)

lemma lapA:
  "checkCheckpoints atA now1 now2
      \<lparr>checkpoints = [cpA], currentCheckpoint = 0, lapCount = n, startTime = t, bestTime = b\<rparr>
   = Inr \<lparr>checkpoints = [cpA], currentCheckpoint = 0, lapCount = n + 1, startTime = now2,
       bestTime = (if lessThanTime (real_of_int (now1 - t) / 1000) b
                   then Finite (real_of_int (now1 - t) / 1000) else b)\<rparr>"
  using dist_atA by (simp add: checkCheckpoints_def Let_def)

lemma best_lap_example:
  "checkAll [(atA, 12000, 12000), (atA, 21500, 21500), (atA, 32500, 32500)] (newGame [cpA] 0)
   = Inr \<lparr>checkpoints = [cpA], currentCheckpoint = 0, lapCount = 3, startTime = 32500,
       bestTime = Finite 9.5\<rparr>"
  by (simp add: newGame_def lapA)

text \<open>
  The amended claim C1 at a concrete input: a track of one checkpoint, the vehicle on
  it, 12000 ms after the start.
\<close>

theorem lap_completion_witness:
  "currentCheckpoint (newGame [cpA] 0) + 1 = length (checkpoints (newGame [cpA] 0))
   \<and> distanceTo atA (checkpoints (newGame [cpA] 0) ! currentCheckpoint (newGame [cpA] 0)) < 3
   \<and> checkCheckpoints atA 12000 12001 (newGame [cpA] 0)
       = Inr \<lparr>checkpoints = [cpA], currentCheckpoint = 0, lapCount = 1, startTime = 12001,
            bestTime = Finite 12\<rparr>"
proof -
  have a: "currentCheckpoint (newGame [cpA] 0) + 1 = length (checkpoints (newGame [cpA] 0))"
    by (simp add: newGame_def)
  have b: "distanceTo atA (checkpoints (newGame [cpA] 0) ! currentCheckpoint (newGame [cpA] 0)) < 3"
    using dist_atA by (simp add: newGame_def)
  from lap_completion[OF a b, of 12000 12001] a b show ?thesis
    by (auto simp add: newGame_def)
qed

text \<open>
  Claim C1 as stated fails on the lap duration: 12000 ms after the start the recorded
  best time is 12 (seconds), not the difference 12000 of the two timestamps.
\<close>

theorem lap_time_seconds_counterexample:
  "checkCheckpoints atA 12000 12000 (newGame [cpA] 0)
     = Inr \<lparr>checkpoints = [cpA], currentCheckpoint = 0, lapCount = 1, startTime = 12000,
          bestTime = Finite 12\<rparr>
   \<and> Finite 12 \<noteq> Finite (real_of_int (12000 - startTime (newGame [cpA] 0)))"
  by (simp add: newGame_def lapA)

text \<open>
  Claim C3, as amended.  With an empty checkpoint list the call changes nothing.  With
  the cursor inside the list, and for every vehicle position, the call returns normally;
  the distance it tests is the three-dimensional one (x, y and z) from the vehicle to the
  current checkpoint; when it is strictly below 3 the cursor advances (to the next index,
  or from the last one to 0), and when it is 3 or more the whole state (cursor,
  \<open>lapCount\<close>, \<open>startTime\<close>, \<open>bestTime\<close>) is unchanged.
\<close>

theorem checkpoint_test:
  assumes "currentCheckpoint g < length (checkpoints g)"
  shows "(checkpoints h = [] \<longrightarrow> checkCheckpoints vehiclePos now1 now2 h = Inr h)
     \<and> (\<exists>g'. checkCheckpoints vehiclePos now1 now2 g = Inr g'
        \<and> (distanceTo vehiclePos (checkpoints g ! currentCheckpoint g) < 3 \<longrightarrow>
             currentCheckpoint g' = (currentCheckpoint g + 1) mod length (checkpoints g)
             \<and> (currentCheckpoint g + 1 < length (checkpoints g) \<longrightarrow>
                   g' = g\<lparr>currentCheckpoint := currentCheckpoint g + 1\<rparr>))
        \<and> (3 \<le> distanceTo vehiclePos (checkpoints g ! currentCheckpoint g) \<longrightarrow> g' = g))"
proof
  show "checkpoints h = [] \<longrightarrow> checkCheckpoints vehiclePos now1 now2 h = Inr h"
    by (simp add: checkCheckpoints_def)
  show "\<exists>g'. checkCheckpoints vehiclePos now1 now2 g = Inr g'
        \<and> (distanceTo vehiclePos (checkpoints g ! currentCheckpoint g) < 3 \<longrightarrow>
             currentCheckpoint g' = (currentCheckpoint g + 1) mod length (checkpoints g)
             \<and> (currentCheckpoint g + 1 < length (checkpoints g) \<longrightarrow>
                   g' = g\<lparr>currentCheckpoint := currentCheckpoint g + 1\<rparr>))
        \<and> (3 \<le> distanceTo vehiclePos (checkpoints g ! currentCheckpoint g) \<longrightarrow> g' = g)"
    using assms
    by (auto simp add: checkCheckpoints_def Let_def not_less le_Suc_eq)
qed

text \<open>
  The amended claim C3 at concrete inputs: on the first checkpoint the cursor
  advances from 0 to 1; at the origin, 30 away, nothing changes.
\<close>

theorem checkpoint_test_witness:
  "currentCheckpoint (newGame [cpA, cpB] 0) < length (checkpoints (newGame [cpA, cpB] 0))
   \<and> distanceTo atA (checkpoints (newGame [cpA, cpB] 0) ! currentCheckpoint (newGame [cpA, cpB] 0)) < 3
   \<and> checkCheckpoints atA 5 6 (newGame [cpA, cpB] 0) = Inr ((newGame [cpA, cpB] 0)\<lparr>currentCheckpoint := 1\<rparr>)
   \<and> 3 \<le> distanceTo farA (checkpoints (newGame [cpA, cpB] 0) ! currentCheckpoint (newGame [cpA, cpB] 0))
   \<and> checkCheckpoints farA 5 6 (newGame [cpA, cpB] 0) = Inr (newGame [cpA, cpB] 0)
   \<and> checkpoints (newGame [] 0) = []
   \<and> checkCheckpoints atA 5 6 (newGame [] 0) = Inr (newGame [] 0)"
proof -
  have a: "currentCheckpoint (newGame [cpA, cpB] 0) < length (checkpoints (newGame [cpA, cpB] 0))"
    by (simp add: newGame_def)
  from checkpoint_test[OF a, of "newGame [] 0" atA 5 6]
    checkpoint_test[OF a, of "newGame [] 0" farA 5 6] dist_atA dist_farA
  show ?thesis
    by (auto simp add: newGame_def)
qed

text \<open>
  Claim C3 as stated fails for the planar distance: a vehicle (at its height 0.5)
  whose planar distance to the current checkpoint is 2.99 is at distance above 3 from
  it, and the call leaves the cursor where it is.
\<close>

theorem planar_distance_counterexample:
  "planarDistance nearA cpA < 3
   \<and> checkpoints (newGame [cpA, cpB] 0) ! currentCheckpoint (newGame [cpA, cpB] 0) = cpA
   \<and> checkCheckpoints nearA 5 6 (newGame [cpA, cpB] 0) = Inr (newGame [cpA, cpB] 0)"
  using planar_nearA dist_nearA
  by (simp add: checkCheckpoints_def Let_def newGame_def)

text \<open>
  Claim C5.  With the cursor inside the checkpoint list, one call of
  \<open>checkCheckpoints\<close> returns normally and leaves the cursor where it is, or moves it
  to the next index, or wraps it from the last index to 0; it never moves further, the
  cursor stays inside the list, the list is unchanged and at most one lap is counted.
  Hence in every state reached from a new game over a non-empty list the cursor is inside
  the list.
\<close>

theorem single_step_cursor:
  "(currentCheckpoint g < length (checkpoints g) \<longrightarrow>
      (\<exists>g'. checkCheckpoints vehiclePos now1 now2 g = Inr g'
         \<and> (currentCheckpoint g' = currentCheckpoint g
            \<or> currentCheckpoint g' = currentCheckpoint g + 1
            \<or> currentCheckpoint g + 1 = length (checkpoints g) \<and> currentCheckpoint g' = 0)
         \<and> currentCheckpoint g' < length (checkpoints g')
         \<and> checkpoints g' = checkpoints g
         \<and> lapCount g' \<le> lapCount g + 1))
   \<and> (cps \<noteq> [] \<longrightarrow>
      (\<exists>g'. checkAll calls (newGame cps t0) = Inr g'
         \<and> currentCheckpoint g' < length (checkpoints g') \<and> checkpoints g' = cps))"
proof (intro conjI impI)
  assume "currentCheckpoint g < length (checkpoints g)"
  then show "\<exists>g'. checkCheckpoints vehiclePos now1 now2 g = Inr g'
         \<and> (currentCheckpoint g' = currentCheckpoint g
            \<or> currentCheckpoint g' = currentCheckpoint g + 1
            \<or> currentCheckpoint g + 1 = length (checkpoints g) \<and> currentCheckpoint g' = 0)
         \<and> currentCheckpoint g' < length (checkpoints g')
         \<and> checkpoints g' = checkpoints g
         \<and> lapCount g' \<le> lapCount g + 1"
    by (auto simp add: checkCheckpoints_def Let_def not_less le_Suc_eq)
next
  assume "cps \<noteq> []"
  then have "currentCheckpoint (newGame cps t0) < length (checkpoints (newGame cps t0))"
    by (simp add: newGame_def)
  from checkAll_cursor[OF this, of calls]
  show "\<exists>g'. checkAll calls (newGame cps t0) = Inr g'
         \<and> currentCheckpoint g' < length (checkpoints g') \<and> checkpoints g' = cps"
    by (auto simp add: newGame_def)
qed

text \<open>
  Claim C5 at concrete inputs: two calls in a row with the vehicle standing on the
  first checkpoint advance the cursor once, from 0 to 1.
\<close>

theorem single_step_cursor_witness:
  "currentCheckpoint (newGame [cpA, cpB] 0) < length (checkpoints (newGame [cpA, cpB] 0))
   \<and> [cpA, cpB] \<noteq> []
   \<and> checkCheckpoints atA 5 6 (newGame [cpA, cpB] 0) = Inr ((newGame [cpA, cpB] 0)\<lparr>currentCheckpoint := 1\<rparr>)
   \<and> checkAll [(atA, 5, 6), (atA, 7, 8)] (newGame [cpA, cpB] 0)
        = Inr ((newGame [cpA, cpB] 0)\<lparr>currentCheckpoint := 1\<rparr>)"
  using single_step_cursor[of "newGame [cpA, cpB] 0" atA 5 6 "[cpA, cpB]" "[(atA, 5, 6), (atA, 7, 8)]" 0]
    dist_atA
  by (simp add: newGame_def checkCheckpoints_def Let_def distanceTo_less_iff distanceToSquared_def
      atA_def cpA_def cpB_def)


section \<open>Sword: collection is final\<close>

lemma collected_call: "collected s \<Longrightarrow> call_sword c s = s"
  by (cases c) (simp_all add: update_sword_def checkCollision_def)

lemma collected_calls: "collected s \<Longrightarrow> calls_sword cs s = s"
  by (induction cs) (simp_all add: collected_call)

lemma collected_monotone: "collected s \<Longrightarrow> collected (call_sword c s)"
  by (simp add: collected_call)

text \<open>
  Claim C10.  On a collected sword \<open>checkCollision\<close> returns false and \<open>update\<close>
  does nothing, each leaving the state as it is, whatever the arguments; so the sword
  stays collected through any sequence of calls.  On a sword not yet collected,
  \<open>checkCollision\<close> returns true and marks it collected (removing its mesh from the
  scene) exactly when the distance from its mesh to the player position is strictly
  below \<open>playerRadius + 0.5\<close>, and otherwise returns false and changes nothing.
\<close>

theorem collected_is_final:
  "(collected s \<longrightarrow>
      checkCollision playerPosition playerRadius s = (False, s)
      \<and> update_sword deltaTime s = s
      \<and> calls_sword cs s = s
      \<and> collected (calls_sword cs s))
   \<and> (\<not> collected s \<longrightarrow>
      checkCollision playerPosition playerRadius s =
        (if distanceTo (meshPosition s) playerPosition < playerRadius + 0.5
         then (True, s\<lparr>collected := True, inScene := False\<rparr>) else (False, s)))
   \<and> (fst (checkCollision playerPosition playerRadius s) \<longleftrightarrow>
        \<not> collected s \<and> distanceTo (meshPosition s) playerPosition < playerRadius + 0.5)
   \<and> (collected (snd (checkCollision playerPosition playerRadius s)) \<longleftrightarrow>
        collected s \<or> distanceTo (meshPosition s) playerPosition < playerRadius + 0.5)"
  by (simp add: checkCollision_def update_sword_def collect_def Let_def collected_calls)

lemma dist_playerNear: "distanceTo (meshPosition sword0) playerNear < 0.5 + 0.5"
  by (simp add: distanceTo_less_iff distanceToSquared_def sword0_def playerNear_def)

lemma dist_playerFar: "\<not> distanceTo (meshPosition sword0) playerFar < 0.5 + 0.5"
  by (simp add: distanceTo_less_iff distanceToSquared_def sword0_def playerFar_def)

text \<open>
  Claim C10 at concrete inputs: a player 0.75 away with radius 0.5 collects the
  sword, one 5 away does not, and the collected sword ignores every further call.
\<close>

theorem collected_is_final_witness:
  "\<not> collected sword0
   \<and> checkCollision playerNear 0.5 sword0 = (True, collect sword0)
   \<and> checkCollision playerFar 0.5 sword0 = (False, sword0)
   \<and> collected (collect sword0)
   \<and> checkCollision playerNear 0.5 (collect sword0) = (False, collect sword0)
   \<and> update_sword 0.016 (collect sword0) = collect sword0
   \<and> calls_sword [Update 0.016, CheckCollision playerNear 0.5, Update 0.016] (collect sword0)
        = collect sword0"
proof -
  have n: "\<not> collected sword0" by (simp add: sword0_def)
  have c: "collected (collect sword0)" by (simp add: collect_def)
  from collected_is_final[of sword0 playerNear "0.5" "0.016" "[]"]
    collected_is_final[of sword0 playerFar "0.5" "0.016" "[]"]
    collected_is_final[of "collect sword0" playerNear "0.5" "0.016"
      "[Update 0.016, CheckCollision playerNear 0.5, Update 0.016]"]
    n c dist_playerNear dist_playerFar
  show ?thesis
    by (simp add: collect_def)
qed

end
